theory Spec2Isabelle
  imports Complex_Main "HOL-Library.AList"
begin

section \<open>The sampler binding of NetKet (NetKet/Sampler/pysampler.hpp)\<close>

text \<open>
  The source is one function, \<open>AddSamplerModule\<close>, that registers eleven classes in the
  submodule \<open>sampler\<close>: the abstract \<open>Sampler\<close> and ten concrete samplers. Each
  registration is a chain of \<open>.def(...)\<close> calls: at most one \<open>py::init<...>\<close> with its
  \<open>py::arg\<close> list, followed by the five methods the macro \<open>ADDSAMPLERMETHODS\<close> adds.
  The registrations are modelled as data, in the order of the source, and a call from
  Python as a function over that data.
\<close>

subsection \<open>Values that cross the binding\<close>

text \<open>
  \<open>MatType\<close> is a dense complex matrix. A C++ \<open>double\<close> is kept as a real number: the
  binding only carries these values, it never computes with them.
\<close>

type_synonym MatType = "complex list list"

datatype py_object =
    Machine
  | Graph
  | Operator
  | PyInt int
  | MatList "MatType list"
  | IntListList "int list list"
  | FloatList "real list"

text \<open>The parameter types written in the \<open>py::init<...>\<close> template lists.\<close>

datatype cpp_type =
    AbMachineType_ref
  | AbstractGraph_ref
  | const_AbstractGraph_ref
  | AbstractOperator_ref
  | int_t
  | const_vector_MatType_ref
  | const_vector_vector_int_ref
  | vector_double

text \<open>The C++ classes that are registered (\<open>AbSamplerType\<close> and each \<open>DerSampler\<close>).\<close>

datatype cpp_class =
    AbSamplerType
  | MetropolisLocal
  | MetropolisLocalPt
  | MetropolisHop
  | MetropolisHamiltonian
  | MetropolisHamiltonianPt
  | MetropolisExchange
  | MetropolisExchangePt
  | ExactSampler
  | CustomSampler
  | CustomSamplerPt

text \<open>The member functions of the sampler classes that the macro binds.\<close>

datatype member = Reset | Sweep | Visible | SetVisible | Acceptance

subsection \<open>Registrations\<close>

text \<open>
  \<open>py::arg("x")\<close> is a keyword name without a default, \<open>py::arg("x") = v\<close> one with the
  default \<open>v\<close>.
\<close>

record py_arg =
  arg_name :: string
  arg_default :: "py_object option"

definition arg :: "string \<Rightarrow> py_arg" where
  "arg n = \<lparr>arg_name = n, arg_default = None\<rparr>"

definition arg_eq :: "string \<Rightarrow> py_object \<Rightarrow> py_arg" where
  "arg_eq n v = \<lparr>arg_name = n, arg_default = Some v\<rparr>"

text \<open>
  One \<open>.def(...)\<close> call: a constructor (\<open>py::init<types>()\<close> and its \<open>py::arg\<close>s) or a
  method (\<open>.def("name", &cls::Member)\<close>).
\<close>

datatype def =
    Init "cpp_type list" "py_arg list"
  | Method string cpp_class member

text \<open>\<open>py::class_<cpp, bases...>(subm, "name")\<close> followed by its \<open>.def\<close> calls.\<close>

record py_class =
  cpp :: cpp_class
  bases :: "cpp_class list"
  py_name :: string
  defs :: "def list"

definition ADDSAMPLERMETHODS :: "cpp_class \<Rightarrow> def list" where
  "ADDSAMPLERMETHODS name =
     [Method ''reset'' name Reset,
      Method ''sweep'' name Sweep,
      Method ''get_visible'' name Visible,
      Method ''set_visible'' name SetVisible,
      Method ''acceptance'' name Acceptance]"

definition AddSamplerModule :: "py_class list" where
  "AddSamplerModule =
    [\<lparr>cpp = AbSamplerType, bases = [], py_name = ''Sampler'',
       defs = ADDSAMPLERMETHODS AbSamplerType\<rparr>,
     \<lparr>cpp = MetropolisLocal, bases = [AbSamplerType], py_name = ''MetropolisLocal'',
       defs = Init [AbMachineType_ref] [arg ''machine'']
              # ADDSAMPLERMETHODS MetropolisLocal\<rparr>,
     \<lparr>cpp = MetropolisLocalPt, bases = [AbSamplerType], py_name = ''MetropolisLocalPt'',
       defs = Init [AbMachineType_ref, int_t] [arg ''machine'', arg ''n_replicas'']
              # ADDSAMPLERMETHODS MetropolisLocalPt\<rparr>,
     \<lparr>cpp = MetropolisHop, bases = [AbSamplerType], py_name = ''MetropolisHop'',
       defs = Init [AbstractGraph_ref, AbMachineType_ref, int_t]
                   [arg ''graph'', arg ''machine'', arg ''d_max'']
              # ADDSAMPLERMETHODS MetropolisHop\<rparr>,
     \<lparr>cpp = MetropolisHamiltonian, bases = [AbSamplerType],
       py_name = ''MetropolisHamiltonian'',
       defs = Init [AbMachineType_ref, AbstractOperator_ref]
                   [arg ''machine'', arg ''hamiltonian'']
              # ADDSAMPLERMETHODS MetropolisHamiltonian\<rparr>,
     \<lparr>cpp = MetropolisHamiltonianPt, bases = [AbSamplerType],
       py_name = ''MetropolisHamiltonianPt'',
       defs = Init [AbMachineType_ref, AbstractOperator_ref, int_t]
                   [arg ''machine'', arg ''hamiltonian'', arg ''n_replicas'']
              # ADDSAMPLERMETHODS MetropolisHamiltonianPt\<rparr>,
     \<lparr>cpp = MetropolisExchange, bases = [AbSamplerType], py_name = ''MetropolisExchange'',
       defs = Init [const_AbstractGraph_ref, AbMachineType_ref, int_t]
                   [arg ''graph'', arg ''machine'', arg_eq ''d_max'' (PyInt 1)]
              # ADDSAMPLERMETHODS MetropolisExchange\<rparr>,
     \<lparr>cpp = MetropolisExchangePt, bases = [AbSamplerType],
       py_name = ''MetropolisExchangePt'',
       defs = Init [const_AbstractGraph_ref, AbMachineType_ref, int_t, int_t]
                   [arg ''graph'', arg ''machine'', arg_eq ''d_max'' (PyInt 1),
                    arg_eq ''n_replicas'' (PyInt 1)]
              # ADDSAMPLERMETHODS MetropolisExchangePt\<rparr>,
     \<lparr>cpp = ExactSampler, bases = [AbSamplerType], py_name = ''ExactSampler'',
       defs = Init [AbMachineType_ref] [arg ''machine'']
              # ADDSAMPLERMETHODS ExactSampler\<rparr>,
     \<lparr>cpp = CustomSampler, bases = [AbSamplerType], py_name = ''CustomSampler'',
       defs = Init [AbMachineType_ref, const_vector_MatType_ref,
                    const_vector_vector_int_ref, vector_double]
                   [arg ''machine'', arg ''move_operators'', arg ''acting_on'',
                    arg_eq ''move_weights'' (FloatList [])]
              # ADDSAMPLERMETHODS CustomSampler\<rparr>,
     \<lparr>cpp = CustomSamplerPt, bases = [AbSamplerType], py_name = ''CustomSamplerPt'',
       defs = Init [AbMachineType_ref, const_vector_MatType_ref,
                    const_vector_vector_int_ref, vector_double, int_t]
                   [arg ''machine'', arg ''move_operators'', arg ''acting_on'',
                    arg_eq ''move_weights'' (FloatList []), arg ''nreplicas'']
              # ADDSAMPLERMETHODS CustomSamplerPt\<rparr>]"

text \<open>The ten sampler variants, by the names they are registered under.\<close>

definition sampler_variants :: "string list" where
  "sampler_variants =
     [''MetropolisLocal'', ''MetropolisLocalPt'', ''MetropolisHop'',
      ''MetropolisHamiltonian'', ''MetropolisHamiltonianPt'', ''MetropolisExchange'',
      ''MetropolisExchangePt'', ''ExactSampler'', ''CustomSampler'', ''CustomSamplerPt'']"

subsection \<open>Reading a registration\<close>

fun method_of :: "def \<Rightarrow> (string \<times> cpp_class \<times> member) option" where
  "method_of (Method n c f) = Some (n, c, f)"
| "method_of (Init tys as) = None"

fun init_of :: "def \<Rightarrow> (cpp_type list \<times> py_arg list) option" where
  "init_of (Init tys as) = Some (tys, as)"
| "init_of (Method n c f) = None"

definition methods :: "py_class \<Rightarrow> (string \<times> cpp_class \<times> member) list" where
  "methods c = List.map_filter method_of (defs c)"

definition inits :: "py_class \<Rightarrow> (cpp_type list \<times> py_arg list) list" where
  "inits c = List.map_filter init_of (defs c)"

definition lookup :: "py_class list \<Rightarrow> string \<Rightarrow> py_class option" where
  "lookup m name = find (\<lambda>c. py_name c = name) m"

subsection \<open>Calling a constructor from Python\<close>

text \<open>
  The binding library resolves a call \<open>Cls(*pos, **kw)\<close> against each registered
  constructor in turn. For one constructor it
  \<^enum> copies the positional arguments onto the leading parameters, and gives up when there
    are more of them than parameters or when one of these parameters is also given by
    keyword;
  \<^enum> fills each remaining parameter from the keywords (consuming the keyword) or, failing
    that, from its default, and gives up when a parameter has neither;
  \<^enum> gives up when a keyword is left over;
  \<^enum> converts every value to the C++ parameter type, and gives up when one does not
    convert.
  When no constructor takes the call, or the class has none, the call raises
  \<open>TypeError\<close>. Otherwise the C++ constructor runs on the converted values.
  Keyword arguments are an association list, in the order the caller wrote them.
\<close>

type_synonym kwargs = "(string \<times> py_object) list"

datatype error = AttributeError | TypeError | ConstructionError

fun copy_positional ::
  "py_arg list \<Rightarrow> py_object list \<Rightarrow> kwargs \<Rightarrow> (py_object list \<times> py_arg list) option" where
  "copy_positional as [] kw = Some ([], as)"
| "copy_positional [] (p # ps) kw = None"
| "copy_positional (a # as) (p # ps) kw =
     (if arg_name a \<in> set (map fst kw) then None
      else (case copy_positional as ps kw of
              None \<Rightarrow> None
            | Some (vs, rest) \<Rightarrow> Some (p # vs, rest)))"

fun fill_remaining :: "py_arg list \<Rightarrow> kwargs \<Rightarrow> (py_object list \<times> kwargs) option" where
  "fill_remaining [] kw = Some ([], kw)"
| "fill_remaining (a # as) kw =
     (case map_of kw (arg_name a) of
        Some v \<Rightarrow>
          (case fill_remaining as (AList.delete (arg_name a) kw) of
             None \<Rightarrow> None
           | Some (vs, kw') \<Rightarrow> Some (v # vs, kw'))
      | None \<Rightarrow>
          (case arg_default a of
             None \<Rightarrow> None
           | Some d \<Rightarrow>
               (case fill_remaining as kw of
                  None \<Rightarrow> None
                | Some (vs, kw') \<Rightarrow> Some (d # vs, kw'))))"

text \<open>A Python integer converts to a C++ \<open>int\<close> only when it fits in 32 bits.\<close>

definition fits_int :: "int \<Rightarrow> bool" where
  "fits_int n = (- (2 ^ 31) \<le> n \<and> n < 2 ^ 31)"

fun loads :: "cpp_type \<Rightarrow> py_object \<Rightarrow> bool" where
  "loads AbMachineType_ref Machine = True"
| "loads AbstractGraph_ref Graph = True"
| "loads const_AbstractGraph_ref Graph = True"
| "loads AbstractOperator_ref Operator = True"
| "loads int_t (PyInt n) = fits_int n"
| "loads const_vector_MatType_ref (MatList ms) = True"
| "loads const_vector_vector_int_ref (IntListList xss) = list_all (list_all fits_int) xss"
| "loads vector_double (FloatList ws) = True"
| "loads t v = False"

definition try_init ::
  "cpp_type list \<times> py_arg list \<Rightarrow> py_object list \<Rightarrow> kwargs \<Rightarrow> py_object list option" where
  "try_init i pos kw =
     (case copy_positional (snd i) pos kw of
        None \<Rightarrow> None
      | Some (vs, rest) \<Rightarrow>
          (case fill_remaining rest kw of
             None \<Rightarrow> None
           | Some (ws, kw') \<Rightarrow>
               if kw' = [] \<and> list_all2 loads (fst i) (vs @ ws) then Some (vs @ ws)
               else None))"

text \<open>
  The result of a successful call is the C++ constructor that runs and the values it
  runs on.
\<close>

definition py_call ::
  "py_class list \<Rightarrow> string \<Rightarrow> py_object list \<Rightarrow> kwargs \<Rightarrow> error + cpp_class \<times> py_object list"
  where
  "py_call m name pos kw =
     (case lookup m name of
        None \<Rightarrow> Inl AttributeError
      | Some c \<Rightarrow>
          (case List.map_filter (\<lambda>i. try_init i pos kw) (inits c) of
             [] \<Rightarrow> Inl TypeError
           | vs # _ \<Rightarrow> Inr (cpp c, vs)))"

subsection \<open>Subclassing\<close>

text \<open>
  A base class is registered before the classes that name it, so the classes an object
  of class \<open>t\<close> can stand for are found by walking the registrations backwards.
\<close>

fun supers :: "py_class list \<Rightarrow> cpp_class \<Rightarrow> cpp_class list" where
  "supers [] t = [t]"
| "supers (c # earlier) t =
     (if cpp c = t then t # concat (map (supers earlier) (bases c))
      else supers earlier t)"

definition accepted_as :: "py_class list \<Rightarrow> cpp_class \<Rightarrow> cpp_class \<Rightarrow> bool" where
  "accepted_as m t b = (b \<in> set (supers (rev m) t))"

text \<open>The constructors registered under a Python class name.\<close>

definition constructors :: "py_class list \<Rightarrow> string \<Rightarrow> (cpp_type list \<times> py_arg list) list" where
  "constructors m name = (case lookup m name of None \<Rightarrow> [] | Some c \<Rightarrow> inits c)"

subsection \<open>What the constructors do with the values\<close>

text \<open>
  The constructors that \<open>py::init\<close> calls are defined in the headers the source includes
  (\<open>metropolis_local_pt.hpp\<close>, \<open>metropolis_hop.hpp\<close>, \<open>metropolis_hamiltonian_pt.hpp\<close>,
  \<open>metropolis_exchange.hpp\<close>, \<open>metropolis_exchange_pt.hpp\<close>, \<open>custom_sampler.hpp\<close>,
  \<open>custom_sampler_pt.hpp\<close>), which are not part of the source. What they do with their
  arguments is taken from the spec, and only as far as the spec says it.
\<close>

text \<open>
  Modelled from the spec: the agreement of the three lengths of a move operator set,
  checked by the constructors in \<open>custom_sampler.hpp\<close> and \<open>custom_sampler_pt.hpp\<close>.
  Section 3: matrix count, \<open>acting_on\<close> count and weight count must agree (weights
  default to uniform when unset); so an empty weight list agrees with any number of
  operators.
\<close>

definition lengths_agree :: "MatType list \<Rightarrow> int list list \<Rightarrow> real list \<Rightarrow> bool" where
  "lengths_agree ops acting ws =
     (length ops = length acting \<and> (ws = [] \<or> length ws = length ops))"

text \<open>
  Modelled from the spec: the range check on \<open>d_max\<close> and \<open>n_replicas\<close> in the
  constructors of the Hop, Exchange and tempering samplers. Section 7: negative or zero
  \<open>d_max\<close>, \<open>n_replicas \<le> 0\<close>.
\<close>

fun nonpositive :: "py_object \<Rightarrow> bool" where
  "nonpositive (PyInt n) = (n \<le> 0)"
| "nonpositive v = False"

text \<open>
  Modelled from the spec: the length check of the Custom samplers' constructors, on the
  values as the binding hands them over. Section 7: mismatched
  \<open>move_operators\<close>/\<open>acting_on\<close>/\<open>move_weights\<close> lengths.
\<close>

definition mismatched :: "py_object \<Rightarrow> py_object \<Rightarrow> py_object \<Rightarrow> bool" where
  "mismatched move_operators acting_on move_weights =
     (case move_operators of
        MatList ops \<Rightarrow>
          (case acting_on of
             IntListList acting \<Rightarrow>
               (case move_weights of
                  FloatList ws \<Rightarrow> \<not> lengths_agree ops acting ws
                | _ \<Rightarrow> False)
           | _ \<Rightarrow> False)
      | _ \<Rightarrow> False)"

text \<open>
  Modelled from the spec: whether the constructor of a sampler class raises
  \<open>ConstructionError\<close> on the values of its parameters, in the order of the
  \<open>py::init\<close> template list. Section 7: \<open>ConstructionError\<close> (negative/zero \<open>d_max\<close>,
  \<open>n_replicas \<le> 0\<close>, mismatched \<open>move_operators\<close>/\<open>acting_on\<close>/\<open>move_weights\<close>
  lengths). The spec names no such error for the Local, Hamiltonian and Exact samplers.
\<close>

fun construction_error :: "cpp_class \<Rightarrow> py_object list \<Rightarrow> bool" where
  "construction_error MetropolisLocalPt [machine, n_replicas] = nonpositive n_replicas"
| "construction_error MetropolisHop [graph, machine, d_max] = nonpositive d_max"
| "construction_error MetropolisHamiltonianPt [machine, hamiltonian, n_replicas] =
     nonpositive n_replicas"
| "construction_error MetropolisExchange [graph, machine, d_max] = nonpositive d_max"
| "construction_error MetropolisExchangePt [graph, machine, d_max, n_replicas] =
     (nonpositive d_max \<or> nonpositive n_replicas)"
| "construction_error CustomSampler [machine, move_operators, acting_on, move_weights] =
     mismatched move_operators acting_on move_weights"
| "construction_error CustomSamplerPt
       [machine, move_operators, acting_on, move_weights, n_replicas] =
     (mismatched move_operators acting_on move_weights \<or> nonpositive n_replicas)"
| "construction_error c vs = False"

text \<open>
  Modelled from the spec: creating a sampler from Python, as far as
  \<open>ConstructionError\<close> goes. The binding resolves the call (\<open>py_call\<close>, from the
  source), then the constructor checks its arguments (section 7: construction errors
  are surfaced immediately and are fatal to that sampler's creation). \<open>Inl\<close> means that
  no sampler was created; \<open>Inr\<close> that the constructor got past these checks with these
  values.
\<close>

definition py_new ::
  "py_class list \<Rightarrow> string \<Rightarrow> py_object list \<Rightarrow> kwargs \<Rightarrow> error + cpp_class \<times> py_object list"
  where
  "py_new m name pos kw =
     (case py_call m name pos kw of
        Inl e \<Rightarrow> Inl e
      | Inr (c, vs) \<Rightarrow> if construction_error c vs then Inl ConstructionError else Inr (c, vs))"

text \<open>
  Modelled from the spec: the selection weights of the Custom sampler's move operator
  set, which \<open>custom_sampler.hpp\<close> builds from the \<open>move_weights\<close> argument. Section 3:
  the weights default to uniform when unset. Section 4.3: if all move weights are zero,
  fall back to uniform weighting.
\<close>

definition operator_weights :: "nat \<Rightarrow> real list \<Rightarrow> real list" where
  "operator_weights n_ops ws =
     (if ws = [] \<or> list_all (\<lambda>w. w = 0) ws then replicate n_ops 1 else ws)"

text \<open>
  Modelled from the spec: the probability that the Custom proposer of
  \<open>custom_sampler.hpp\<close> selects the \<open>k\<close>-th operator. Section 4.3: select a
  move-operator entry with probability proportional to its weight.
\<close>

definition selection_probability :: "real list \<Rightarrow> nat \<Rightarrow> real" where
  "selection_probability ws k = (if k < length ws then ws ! k / sum_list ws else 0)"

section \<open>How a call is resolved\<close>

text \<open>
  Facts about the resolution of one constructor call: the positional values come first
  and unchanged, a parameter without a default must be given, and a parameter that is
  not given takes its default.
\<close>

lemma copy_positional_Some:
  "copy_positional as pos kw = Some (vs, rest) \<Longrightarrow>
     vs = pos \<and> rest = drop (length pos) as \<and> length pos \<le> length as"
  by (induction as pos kw arbitrary: vs rest rule: copy_positional.induct)
     (auto split: if_splits option.splits)

lemma copy_positional_clash:
  "copy_positional as pos kw = Some (vs, rest) \<Longrightarrow> i < length pos \<Longrightarrow>
     arg_name (as ! i) \<notin> fst ` set kw"
proof (induction as pos kw arbitrary: vs rest i rule: copy_positional.induct)
  case (3 a as p ps kw)
  then show ?case by (cases i) (auto split: if_splits option.splits)
qed simp_all

lemma delete_keys: "fst ` set (AList.delete k kw) \<subseteq> fst ` set kw"
  by (auto simp: AList.delete_eq)

lemma fill_remaining_length:
  "fill_remaining as kw = Some (ws, kw') \<Longrightarrow> length ws = length as"
  by (induction as kw arbitrary: ws kw' rule: fill_remaining.induct)
     (auto split: option.splits)

lemma fill_remaining_Cons:
  assumes "fill_remaining (a # as) kw = Some (ws, kw')"
  obtains v vs where "map_of kw (arg_name a) = Some v"
      "fill_remaining as (AList.delete (arg_name a) kw) = Some (vs, kw')" "ws = v # vs"
    | d vs where "map_of kw (arg_name a) = None" "arg_default a = Some d"
      "fill_remaining as kw = Some (vs, kw')" "ws = d # vs"
proof (cases "map_of kw (arg_name a)")
  case None
  with assms that(2) show ?thesis
    by (cases "arg_default a"; cases "fill_remaining as kw") auto
next
  case (Some v)
  with assms that(1) show ?thesis
    by (cases "fill_remaining as (AList.delete (arg_name a) kw)") auto
qed

lemma fill_remaining_required:
  "fill_remaining as kw = Some (ws, kw') \<Longrightarrow> i < length as \<Longrightarrow>
     arg_default (as ! i) = None \<Longrightarrow> arg_name (as ! i) \<in> fst ` set kw"
proof (induction as arbitrary: kw ws i)
  case Nil
  then show ?case by simp
next
  case (Cons a as)
  from Cons.prems(1) show ?case
  proof (cases rule: fill_remaining_Cons)
    case (1 v vs)
    show ?thesis
    proof (cases i)
      case 0
      from 1(1) have "(arg_name a, v) \<in> set kw" by (rule map_of_SomeD)
      then have "arg_name a \<in> fst ` set kw" by force
      with 0 show ?thesis by simp
    next
      case (Suc j)
      with Cons.prems have "arg_name (as ! j) \<in> fst ` set (AList.delete (arg_name a) kw)"
        using Cons.IH[OF 1(2), of j] by simp
      with delete_keys[of "arg_name a" kw] Suc show ?thesis by auto
    qed
  next
    case (2 d vs)
    show ?thesis
    proof (cases i)
      case 0
      with 2 Cons.prems show ?thesis by simp
    next
      case (Suc j)
      with Cons.prems Cons.IH[OF 2(3), of j] show ?thesis by simp
    qed
  qed
qed

lemma fill_remaining_default:
  "fill_remaining as kw = Some (ws, kw') \<Longrightarrow> i < length as \<Longrightarrow>
     arg_name (as ! i) \<notin> fst ` set kw \<Longrightarrow> arg_default (as ! i) = Some (ws ! i)"
proof (induction as arbitrary: kw ws i)
  case Nil
  then show ?case by simp
next
  case (Cons a as)
  from Cons.prems(1) show ?case
  proof (cases rule: fill_remaining_Cons)
    case (1 v vs)
    from 1(1) have "(arg_name a, v) \<in> set kw" by (rule map_of_SomeD)
    then have in_kw: "arg_name a \<in> fst ` set kw" by force
    show ?thesis
    proof (cases i)
      case 0
      with in_kw Cons.prems show ?thesis by simp
    next
      case (Suc j)
      from Cons.prems Suc delete_keys[of "arg_name a" kw]
      have "arg_name (as ! j) \<notin> fst ` set (AList.delete (arg_name a) kw)" by auto
      with Cons.prems Suc Cons.IH[OF 1(2), of j] 1(3) show ?thesis by simp
    qed
  next
    case (2 d vs)
    show ?thesis
    proof (cases i)
      case 0
      with 2 show ?thesis by simp
    next
      case (Suc j)
      with Cons.prems Cons.IH[OF 2(3), of j] 2(4) show ?thesis by simp
    qed
  qed
qed

lemma try_init_parts:
  assumes "try_init (tys, as) pos kw = Some vs"
  obtains ws where "copy_positional as pos kw = Some (pos, drop (length pos) as)"
    "length pos \<le> length as"
    "fill_remaining (drop (length pos) as) kw = Some (ws, [])"
    "vs = pos @ ws" "list_all2 loads tys vs"
proof -
  from assms obtain ps rest where c: "copy_positional as pos kw = Some (ps, rest)"
    by (cases "copy_positional as pos kw") (auto simp: try_init_def)
  from copy_positional_Some[OF c] have ps: "ps = pos" "rest = drop (length pos) as"
    "length pos \<le> length as" by simp_all
  from assms c obtain ws kw' where f: "fill_remaining rest kw = Some (ws, kw')"
    by (cases "fill_remaining rest kw") (auto simp: try_init_def)
  from assms c f have "kw' = []" "list_all2 loads tys (ps @ ws)" "vs = ps @ ws"
    by (auto simp: try_init_def split: if_splits)
  with c f ps that show ?thesis by simp
qed

lemma try_init_Some:
  assumes "try_init (tys, as) pos kw = Some vs"
  shows "length vs = length as" and "length pos \<le> length as" and "take (length pos) vs = pos"
    and "list_all2 loads tys vs"
proof -
  from assms obtain ws where p: "length pos \<le> length as"
    "fill_remaining (drop (length pos) as) kw = Some (ws, [])"
    "vs = pos @ ws" "list_all2 loads tys vs"
    by (rule try_init_parts)
  from fill_remaining_length[OF p(2)] p(1,3) show "length vs = length as" by simp
  from p show "length pos \<le> length as" "take (length pos) vs = pos" "list_all2 loads tys vs"
    by simp_all
qed

lemma try_init_required:
  assumes "try_init (tys, as) pos kw = Some vs" "i < length as" "arg_default (as ! i) = None"
  shows "i < length pos \<or> arg_name (as ! i) \<in> fst ` set kw"
proof (cases "i < length pos")
  case False
  from assms(1) obtain ws where p: "length pos \<le> length as"
    "fill_remaining (drop (length pos) as) kw = Some (ws, [])"
    by (rule try_init_parts)
  with False assms(2,3) fill_remaining_required[OF p(2), of "i - length pos"]
  show ?thesis by simp
qed simp

lemma try_init_default:
  assumes "try_init (tys, as) pos kw = Some vs" "i < length as" "length pos \<le> i"
    "arg_name (as ! i) \<notin> fst ` set kw"
  shows "arg_default (as ! i) = Some (vs ! i)"
proof -
  from assms(1) obtain ws where p: "length pos \<le> length as"
    "fill_remaining (drop (length pos) as) kw = Some (ws, [])" "vs = pos @ ws"
    by (rule try_init_parts)
  with assms(2-) fill_remaining_default[OF p(2), of "i - length pos"]
  show ?thesis by (simp add: nth_append)
qed

lemma try_init_clash:
  assumes "try_init (tys, as) pos kw = Some vs" "i < length pos"
  shows "arg_name (as ! i) \<notin> fst ` set kw"
proof -
  from assms(1) have "copy_positional as pos kw = Some (pos, drop (length pos) as)"
    by (rule try_init_parts)
  from copy_positional_clash[OF this assms(2)] show ?thesis .
qed

lemma keys_delete: "fst ` set kw \<subseteq> insert k (fst ` set (AList.delete k kw))"
  by (induction kw) auto

lemma fill_remaining_consumes:
  "fill_remaining as kw = Some (ws, []) \<Longrightarrow> fst ` set kw \<subseteq> arg_name ` set as"
proof (induction as arbitrary: kw ws)
  case Nil
  then show ?case by simp
next
  case (Cons a as)
  from Cons.prems show ?case
  proof (cases rule: fill_remaining_Cons)
    case (1 v vs)
    from Cons.IH[OF 1(2)] keys_delete[of kw "arg_name a"]
    have "fst ` set kw \<subseteq> insert (arg_name a) (arg_name ` set as)" by blast
    then show ?thesis by simp
  next
    case (2 d vs)
    from Cons.IH[OF 2(3)] show ?thesis by auto
  qed
qed

lemma try_init_keywords:
  assumes "try_init (tys, as) pos kw = Some vs"
  shows "fst ` set kw \<subseteq> arg_name ` set (drop (length pos) as)"
proof -
  from assms obtain ws where "fill_remaining (drop (length pos) as) kw = Some (ws, [])"
    by (rule try_init_parts)
  then show ?thesis by (rule fill_remaining_consumes)
qed


lemma try_init_keywords_all:
  assumes "try_init (tys, as) pos kw = Some vs"
  shows "fst ` set kw \<subseteq> arg_name ` set as"
  using try_init_keywords[OF assms] set_drop_subset[of "length pos" as] by blast

lemma try_init_all_positional:
  assumes "try_init (tys, as) pos kw = Some vs" and "length pos = length as"
  shows "vs = pos"
  using try_init_Some(1,3)[OF assms(1)] assms(2) by simp

section \<open>The registrations as a whole\<close>

lemmas registration_defs = AddSamplerModule_def ADDSAMPLERMETHODS_def arg_def arg_eq_def
  lookup_def methods_def inits_def constructors_def List.map_filter_simps

lemmas call_defs = py_call_def try_init_def fits_int_def AddSamplerModule_def
  ADDSAMPLERMETHODS_def arg_def arg_eq_def lookup_def inits_def List.map_filter_simps

lemma find_SomeD: "find P xs = Some x \<Longrightarrow> P x \<and> x \<in> set xs"
  by (induction xs) (auto split: if_splits)

lemma py_call_InrD:
  assumes "py_call m name pos kw = Inr (c, vs)" and "constructors m name = [i]"
  shows "try_init i pos kw = Some vs"
proof -
  from assms(1) obtain cl where l: "lookup m name = Some cl"
    by (cases "lookup m name") (auto simp: py_call_def)
  with assms(2) have "inits cl = [i]" by (simp add: constructors_def)
  with assms(1) l show ?thesis
    by (cases "try_init i pos kw") (auto simp: py_call_def List.map_filter_simps)
qed

lemma py_call_class:
  assumes "py_call m name pos kw = Inr (c, vs)"
  shows "map_option cpp (lookup m name) = Some c"
  using assms by (auto simp: py_call_def split: option.splits list.splits)

lemma registered_names: "map py_name AddSamplerModule = ''Sampler'' # sampler_variants"
  by (simp add: AddSamplerModule_def sampler_variants_def)

lemma only_Sampler_is_AbSamplerType:
  "list_all (\<lambda>cl. cpp cl \<noteq> AbSamplerType \<or> py_name cl = ''Sampler'') AddSamplerModule"
  by (simp add: AddSamplerModule_def)

lemma sampler_is_abstract:
  "py_call AddSamplerModule ''Sampler'' pos kw = Inl TypeError"
  by (simp add: py_call_def registration_defs)

lemma py_call_cpp:
  assumes "py_call AddSamplerModule name pos kw = Inr (c, vs)"
  shows "name \<in> set sampler_variants \<and> c \<noteq> AbSamplerType"
proof -
  from assms obtain cl where l: "lookup AddSamplerModule name = Some cl" and c: "c = cpp cl"
    by (cases "lookup AddSamplerModule name") (auto simp: py_call_def split: list.splits)
  from l have cl: "py_name cl = name" "cl \<in> set AddSamplerModule"
    using find_SomeD[of "\<lambda>c. py_name c = name" AddSamplerModule cl] by (simp_all add: lookup_def)
  then have "name \<in> set (map py_name AddSamplerModule)" by auto
  moreover from assms sampler_is_abstract have ne: "name \<noteq> ''Sampler''" by auto
  ultimately have "name \<in> set sampler_variants" by (simp add: registered_names)
  moreover from only_Sampler_is_AbSamplerType cl ne c have "c \<noteq> AbSamplerType"
    by (auto simp: list_all_iff)
  ultimately show ?thesis by simp
qed

lemma length_2E: "length xs = 2 \<Longrightarrow> \<exists>a b. xs = [a, b]"
  by (auto simp: eval_nat_numeral length_Suc_conv)

lemma length_3E: "length xs = 3 \<Longrightarrow> \<exists>a b c. xs = [a, b, c]"
  by (auto simp: eval_nat_numeral length_Suc_conv)

lemma length_4E: "length xs = 4 \<Longrightarrow> \<exists>a b c d. xs = [a, b, c, d]"
  by (auto simp: eval_nat_numeral length_Suc_conv)

lemma length_5E: "length xs = 5 \<Longrightarrow> \<exists>a b c d e. xs = [a, b, c, d, e]"
  by (auto simp: eval_nat_numeral length_Suc_conv)

lemma py_new_fails:
  assumes "py_call m name pos kw = Inr (c, vs)" and "construction_error c vs"
  shows "py_new m name pos kw = Inl ConstructionError"
  using assms by (simp add: py_new_def)

lemma class_of_variant:
  "map_option cpp (lookup AddSamplerModule ''MetropolisLocalPt'') = Some MetropolisLocalPt"
  "map_option cpp (lookup AddSamplerModule ''MetropolisHamiltonianPt'') =
     Some MetropolisHamiltonianPt"
  "map_option cpp (lookup AddSamplerModule ''MetropolisExchangePt'') =
     Some MetropolisExchangePt"
  "map_option cpp (lookup AddSamplerModule ''CustomSampler'') = Some CustomSampler"
  "map_option cpp (lookup AddSamplerModule ''CustomSamplerPt'') = Some CustomSamplerPt"
  by (simp_all add: AddSamplerModule_def lookup_def)

lemma constructors_of_variant:
  "constructors AddSamplerModule ''MetropolisLocalPt'' =
     [([AbMachineType_ref, int_t], [arg ''machine'', arg ''n_replicas''])]"
  "constructors AddSamplerModule ''MetropolisHamiltonianPt'' =
     [([AbMachineType_ref, AbstractOperator_ref, int_t],
       [arg ''machine'', arg ''hamiltonian'', arg ''n_replicas''])]"
  "constructors AddSamplerModule ''MetropolisExchangePt'' =
     [([const_AbstractGraph_ref, AbMachineType_ref, int_t, int_t],
       [arg ''graph'', arg ''machine'', arg_eq ''d_max'' (PyInt 1),
        arg_eq ''n_replicas'' (PyInt 1)])]"
  "constructors AddSamplerModule ''CustomSamplerPt'' =
     [([AbMachineType_ref, const_vector_MatType_ref, const_vector_vector_int_ref,
        vector_double, int_t],
       [arg ''machine'', arg ''move_operators'', arg ''acting_on'',
        arg_eq ''move_weights'' (FloatList []), arg ''nreplicas''])]"
  by (simp_all add: registration_defs)

text \<open>Uniform weights: every operator is selected with the same probability.\<close>

lemma selection_probability_uniform:
  "selection_probability (replicate n w) k = (if k < n then w / (of_nat n * w) else 0)"
  by (simp add: selection_probability_def sum_list_replicate)

lemma operator_weights_Nil: "operator_weights n [] = replicate n 1"
  by (simp add: operator_weights_def)

lemma operator_weights_replicate:
  "operator_weights n (replicate n w) = replicate n (if n = 0 \<or> w = 0 then 1 else w)"
  by (cases n) (auto simp: operator_weights_def list_all_iff)

section \<open>The sampler contract\<close>

text \<open>
  Claim C1. Every one of the ten sampler variants is registered, and its registration
  binds exactly five methods, in this order: \<open>reset\<close> to \<open>Reset\<close>, \<open>sweep\<close> to \<open>Sweep\<close>,
  \<open>get_visible\<close> to \<open>Visible\<close>, \<open>set_visible\<close> to \<open>SetVisible\<close> and \<open>acceptance\<close> to
  \<open>Acceptance\<close>, each of the variant's own C++ class. Besides them the registration
  holds one constructor and nothing else (six \<open>.def\<close> calls in all).
\<close>

theorem variants_expose_the_contract:
  "\<forall>name \<in> set sampler_variants. \<exists>c. lookup AddSamplerModule name = Some c \<and>
     methods c =
       [(''reset'', cpp c, Reset), (''sweep'', cpp c, Sweep),
        (''get_visible'', cpp c, Visible), (''set_visible'', cpp c, SetVisible),
        (''acceptance'', cpp c, Acceptance)] \<and>
     length (inits c) = 1 \<and> length (defs c) = 6"
  by (simp add: sampler_variants_def registration_defs)

theorem variants_expose_the_contract_witness:
  "''CustomSamplerPt'' \<in> set sampler_variants \<and>
   (\<exists>c. lookup AddSamplerModule ''CustomSamplerPt'' = Some c \<and>
     methods c =
       [(''reset'', cpp c, Reset), (''sweep'', cpp c, Sweep),
        (''get_visible'', cpp c, Visible), (''set_visible'', cpp c, SetVisible),
        (''acceptance'', cpp c, Acceptance)] \<and>
     length (inits c) = 1 \<and> length (defs c) = 6)"
proof -
  have "''CustomSamplerPt'' \<in> set sampler_variants"
    by (simp add: sampler_variants_def)
  with variants_expose_the_contract show ?thesis by blast
qed

text \<open>
  Claim C8. Every one of the ten sampler variants is registered with the single base
  \<open>AbSamplerType\<close>, so that an object of the variant's class is accepted where an
  \<open>AbSamplerType\<close> is expected. \<open>AbSamplerType\<close> itself is registered once, first, as
  \<open>Sampler\<close> and without a base; the other ten registrations are the ten variants.
\<close>

theorem variants_derive_from_Sampler:
  "(\<forall>name \<in> set sampler_variants. \<exists>c. lookup AddSamplerModule name = Some c \<and>
      bases c = [AbSamplerType] \<and> accepted_as AddSamplerModule (cpp c) AbSamplerType) \<and>
   map (\<lambda>c. (py_name c, bases c)) (filter (\<lambda>c. cpp c = AbSamplerType) AddSamplerModule) =
     [(''Sampler'', [])] \<and>
   map py_name AddSamplerModule = ''Sampler'' # sampler_variants"
  by (simp add: sampler_variants_def AddSamplerModule_def lookup_def accepted_as_def)

theorem variants_derive_from_Sampler_witness:
  "''ExactSampler'' \<in> set sampler_variants \<and>
   (\<exists>c. lookup AddSamplerModule ''ExactSampler'' = Some c \<and>
      bases c = [AbSamplerType] \<and> accepted_as AddSamplerModule (cpp c) AbSamplerType)"
proof -
  have "''ExactSampler'' \<in> set sampler_variants"
    by (simp add: sampler_variants_def)
  with variants_derive_from_Sampler show ?thesis by blast
qed

text \<open>
  Claim C9. The class \<open>Sampler\<close> is registered for \<open>AbSamplerType\<close> with the five
  contract methods and no constructor. Calling it raises \<open>TypeError\<close> whatever the
  arguments are, and every call into the module that does construct an object is a call
  of one of the ten variants and constructs an object of a class other than
  \<open>AbSamplerType\<close>.
\<close>

theorem Sampler_cannot_be_instantiated:
  "(\<exists>c. lookup AddSamplerModule ''Sampler'' = Some c \<and> cpp c = AbSamplerType \<and>
      inits c = [] \<and>
      methods c =
        [(''reset'', AbSamplerType, Reset), (''sweep'', AbSamplerType, Sweep),
         (''get_visible'', AbSamplerType, Visible),
         (''set_visible'', AbSamplerType, SetVisible),
         (''acceptance'', AbSamplerType, Acceptance)]) \<and>
   (\<forall>pos kw. py_call AddSamplerModule ''Sampler'' pos kw = Inl TypeError) \<and>
   (\<forall>name pos kw c vs. py_call AddSamplerModule name pos kw = Inr (c, vs) \<longrightarrow>
      name \<in> set sampler_variants \<and> c \<noteq> AbSamplerType)"
proof (intro conjI allI impI)
  show "\<exists>c. lookup AddSamplerModule ''Sampler'' = Some c \<and> cpp c = AbSamplerType \<and>
      inits c = [] \<and>
      methods c =
        [(''reset'', AbSamplerType, Reset), (''sweep'', AbSamplerType, Sweep),
         (''get_visible'', AbSamplerType, Visible),
         (''set_visible'', AbSamplerType, SetVisible),
         (''acceptance'', AbSamplerType, Acceptance)]"
    by (simp add: registration_defs)
next
  fix pos kw
  show "py_call AddSamplerModule ''Sampler'' pos kw = Inl TypeError"
    by (rule sampler_is_abstract)
next
  fix name pos kw c vs
  assume call: "py_call AddSamplerModule name pos kw = Inr (c, vs)"
  from py_call_cpp[OF call] show "name \<in> set sampler_variants" ..
  from py_call_cpp[OF call] show "c \<noteq> AbSamplerType" ..
qed

theorem Sampler_cannot_be_instantiated_witness:
  "py_call AddSamplerModule ''MetropolisLocal'' [Machine] [] =
     Inr (MetropolisLocal, [Machine]) \<and>
   ''MetropolisLocal'' \<in> set sampler_variants \<and> MetropolisLocal \<noteq> AbSamplerType"
proof -
  have call: "py_call AddSamplerModule ''MetropolisLocal'' [Machine] [] =
     Inr (MetropolisLocal, [Machine])"
    by (simp add: py_call_def try_init_def registration_defs)
  from Sampler_cannot_be_instantiated call show ?thesis by blast
qed

section \<open>Constructor arguments\<close>

text \<open>
  Claim C3. The constructor of \<open>MetropolisExchange\<close> takes \<open>graph\<close>, \<open>machine\<close> and
  \<open>d_max\<close>, of which only \<open>d_max\<close> has a default, the integer 1. A call that is
  accepted gives \<open>graph\<close> and \<open>machine\<close>, each by position or by keyword. When it gives
  no \<open>d_max\<close>, the C++ constructor runs with \<open>d_max = 1\<close>; in particular the call with
  just a graph and a machine is accepted.
\<close>

theorem exchange_d_max_defaults_to_1:
  "constructors AddSamplerModule ''MetropolisExchange'' =
     [([const_AbstractGraph_ref, AbMachineType_ref, int_t],
       [arg ''graph'', arg ''machine'', arg_eq ''d_max'' (PyInt 1)])] \<and>
   (\<forall>pos kw c vs. py_call AddSamplerModule ''MetropolisExchange'' pos kw = Inr (c, vs) \<longrightarrow>
      (0 < length pos \<or> ''graph'' \<in> fst ` set kw) \<and>
      (1 < length pos \<or> ''machine'' \<in> fst ` set kw) \<and>
      (length pos \<le> 2 \<and> ''d_max'' \<notin> fst ` set kw \<longrightarrow> vs ! 2 = PyInt 1)) \<and>
   py_call AddSamplerModule ''MetropolisExchange'' [Graph, Machine] [] =
     Inr (MetropolisExchange, [Graph, Machine, PyInt 1])"
proof (intro conjI allI impI)
  let ?tys = "[const_AbstractGraph_ref, AbMachineType_ref, int_t]"
  let ?as = "[arg ''graph'', arg ''machine'', arg_eq ''d_max'' (PyInt 1)]"
  show ctor: "constructors AddSamplerModule ''MetropolisExchange'' = [(?tys, ?as)]"
    by (simp add: registration_defs)
  show "py_call AddSamplerModule ''MetropolisExchange'' [Graph, Machine] [] =
     Inr (MetropolisExchange, [Graph, Machine, PyInt 1])"
    by (simp add: py_call_def try_init_def fits_int_def registration_defs)
  fix pos kw c vs
  assume "py_call AddSamplerModule ''MetropolisExchange'' pos kw = Inr (c, vs)"
  from py_call_InrD[OF this ctor] have t: "try_init (?tys, ?as) pos kw = Some vs" .
  from try_init_required[OF t, of 0] show "0 < length pos \<or> ''graph'' \<in> fst ` set kw"
    by (simp add: arg_def)
  from try_init_required[OF t, of 1] show "1 < length pos \<or> ''machine'' \<in> fst ` set kw"
    by (simp add: arg_def)
  assume "length pos \<le> 2 \<and> ''d_max'' \<notin> fst ` set kw"
  with try_init_default[OF t, of 2] show "vs ! 2 = PyInt 1"
    by (simp add: arg_eq_def)
qed

theorem exchange_d_max_defaults_to_1_witness:
  "py_call AddSamplerModule ''MetropolisExchange'' [Graph] [(''machine'', Machine)] =
     Inr (MetropolisExchange, [Graph, Machine, PyInt 1]) \<and>
   (0 < length [Graph] \<or> ''graph'' \<in> fst ` set [(''machine'', Machine)]) \<and>
   (1 < length [Graph] \<or> ''machine'' \<in> fst ` set [(''machine'', Machine)]) \<and>
   [Graph, Machine, PyInt 1] ! 2 = PyInt 1"
proof -
  have call: "py_call AddSamplerModule ''MetropolisExchange'' [Graph] [(''machine'', Machine)] =
     Inr (MetropolisExchange, [Graph, Machine, PyInt 1])"
    by (simp add: py_call_def try_init_def fits_int_def registration_defs)
  have omitted: "length [Graph] \<le> 2 \<and> ''d_max'' \<notin> fst ` set [(''machine'', Machine)]"
    by simp
  from exchange_d_max_defaults_to_1 call omitted show ?thesis by blast
qed

text \<open>
  Claim C4. The constructor of \<open>MetropolisExchangePt\<close> takes \<open>graph\<close>, \<open>machine\<close>,
  \<open>d_max\<close> and \<open>n_replicas\<close>; the last two have the default 1 each, the first two have
  none. A call that is accepted gives \<open>graph\<close> and \<open>machine\<close>; a \<open>d_max\<close> or
  \<open>n_replicas\<close> it does not give reaches the C++ constructor as 1.
\<close>

theorem exchange_pt_defaults:
  "constructors AddSamplerModule ''MetropolisExchangePt'' =
     [([const_AbstractGraph_ref, AbMachineType_ref, int_t, int_t],
       [arg ''graph'', arg ''machine'', arg_eq ''d_max'' (PyInt 1),
        arg_eq ''n_replicas'' (PyInt 1)])] \<and>
   (\<forall>pos kw c vs. py_call AddSamplerModule ''MetropolisExchangePt'' pos kw = Inr (c, vs) \<longrightarrow>
      (0 < length pos \<or> ''graph'' \<in> fst ` set kw) \<and>
      (1 < length pos \<or> ''machine'' \<in> fst ` set kw) \<and>
      (length pos \<le> 2 \<and> ''d_max'' \<notin> fst ` set kw \<longrightarrow> vs ! 2 = PyInt 1) \<and>
      (length pos \<le> 3 \<and> ''n_replicas'' \<notin> fst ` set kw \<longrightarrow> vs ! 3 = PyInt 1)) \<and>
   py_call AddSamplerModule ''MetropolisExchangePt'' [Graph, Machine] [] =
     Inr (MetropolisExchangePt, [Graph, Machine, PyInt 1, PyInt 1])"
proof (intro conjI allI impI)
  let ?tys = "[const_AbstractGraph_ref, AbMachineType_ref, int_t, int_t]"
  let ?as = "[arg ''graph'', arg ''machine'', arg_eq ''d_max'' (PyInt 1),
              arg_eq ''n_replicas'' (PyInt 1)]"
  show ctor: "constructors AddSamplerModule ''MetropolisExchangePt'' = [(?tys, ?as)]"
    by (simp add: registration_defs)
  show "py_call AddSamplerModule ''MetropolisExchangePt'' [Graph, Machine] [] =
     Inr (MetropolisExchangePt, [Graph, Machine, PyInt 1, PyInt 1])"
    by (simp add: call_defs)
  fix pos kw c vs
  assume "py_call AddSamplerModule ''MetropolisExchangePt'' pos kw = Inr (c, vs)"
  from py_call_InrD[OF this ctor] have t: "try_init (?tys, ?as) pos kw = Some vs" .
  from try_init_required[OF t, of 0] show "0 < length pos \<or> ''graph'' \<in> fst ` set kw"
    by (simp add: arg_def)
  from try_init_required[OF t, of 1] show "1 < length pos \<or> ''machine'' \<in> fst ` set kw"
    by (simp add: arg_def)
  {
    assume "length pos \<le> 2 \<and> ''d_max'' \<notin> fst ` set kw"
    with try_init_default[OF t, of 2] show "vs ! 2 = PyInt 1"
      by (simp add: arg_eq_def)
  }
  {
    assume "length pos \<le> 3 \<and> ''n_replicas'' \<notin> fst ` set kw"
    with try_init_default[OF t, of 3] show "vs ! 3 = PyInt 1"
      by (simp add: arg_eq_def)
  }
qed

theorem exchange_pt_defaults_witness:
  "py_call AddSamplerModule ''MetropolisExchangePt'' [Graph] [(''machine'', Machine)] =
     Inr (MetropolisExchangePt, [Graph, Machine, PyInt 1, PyInt 1]) \<and>
   (0 < length [Graph] \<or> ''graph'' \<in> fst ` set [(''machine'', Machine)]) \<and>
   (1 < length [Graph] \<or> ''machine'' \<in> fst ` set [(''machine'', Machine)]) \<and>
   [Graph, Machine, PyInt 1, PyInt 1] ! 2 = PyInt 1 \<and>
   [Graph, Machine, PyInt 1, PyInt 1] ! 3 = PyInt 1"
proof -
  have call: "py_call AddSamplerModule ''MetropolisExchangePt'' [Graph] [(''machine'', Machine)] =
     Inr (MetropolisExchangePt, [Graph, Machine, PyInt 1, PyInt 1])"
    by (simp add: call_defs)
  have omitted: "length [Graph] \<le> 2 \<and> ''d_max'' \<notin> fst ` set [(''machine'', Machine)]"
    "length [Graph] \<le> 3 \<and> ''n_replicas'' \<notin> fst ` set [(''machine'', Machine)]"
    by simp_all
  from exchange_pt_defaults call omitted show ?thesis by blast
qed

text \<open>
  Claim C2, as amended. The constructor of \<open>MetropolisHop\<close> takes exactly \<open>graph\<close>,
  \<open>machine\<close> and \<open>d_max\<close>, and the constructor of \<open>MetropolisHamiltonian\<close> takes exactly
  \<open>machine\<close> and \<open>hamiltonian\<close>; none of them has a default. A call that is accepted
  gives every one of them, by position or by keyword, and uses no other keyword. The
  operator of the Hamiltonian sampler goes by the keyword \<open>hamiltonian\<close>.
\<close>

theorem hop_and_hamiltonian_arguments:
  "constructors AddSamplerModule ''MetropolisHop'' =
     [([AbstractGraph_ref, AbMachineType_ref, int_t],
       [arg ''graph'', arg ''machine'', arg ''d_max''])] \<and>
   constructors AddSamplerModule ''MetropolisHamiltonian'' =
     [([AbMachineType_ref, AbstractOperator_ref], [arg ''machine'', arg ''hamiltonian''])] \<and>
   (\<forall>pos kw c vs. py_call AddSamplerModule ''MetropolisHop'' pos kw = Inr (c, vs) \<longrightarrow>
      (0 < length pos \<or> ''graph'' \<in> fst ` set kw) \<and>
      (1 < length pos \<or> ''machine'' \<in> fst ` set kw) \<and>
      (2 < length pos \<or> ''d_max'' \<in> fst ` set kw) \<and>
      fst ` set kw \<subseteq> {''graph'', ''machine'', ''d_max''} \<and> length vs = 3) \<and>
   (\<forall>pos kw c vs. py_call AddSamplerModule ''MetropolisHamiltonian'' pos kw = Inr (c, vs) \<longrightarrow>
      (0 < length pos \<or> ''machine'' \<in> fst ` set kw) \<and>
      (1 < length pos \<or> ''hamiltonian'' \<in> fst ` set kw) \<and>
      fst ` set kw \<subseteq> {''machine'', ''hamiltonian''} \<and> length vs = 2) \<and>
   py_call AddSamplerModule ''MetropolisHop'' []
     [(''graph'', Graph), (''machine'', Machine), (''d_max'', PyInt 2)] =
     Inr (MetropolisHop, [Graph, Machine, PyInt 2]) \<and>
   py_call AddSamplerModule ''MetropolisHamiltonian'' []
     [(''machine'', Machine), (''hamiltonian'', Operator)] =
     Inr (MetropolisHamiltonian, [Machine, Operator])"
proof (intro conjI allI impI)
  let ?hop = "([AbstractGraph_ref, AbMachineType_ref, int_t],
               [arg ''graph'', arg ''machine'', arg ''d_max''])"
  let ?ham = "([AbMachineType_ref, AbstractOperator_ref],
               [arg ''machine'', arg ''hamiltonian''])"
  show hop: "constructors AddSamplerModule ''MetropolisHop'' = [?hop]"
    by (simp add: registration_defs)
  show ham: "constructors AddSamplerModule ''MetropolisHamiltonian'' = [?ham]"
    by (simp add: registration_defs)
  show "py_call AddSamplerModule ''MetropolisHop'' []
     [(''graph'', Graph), (''machine'', Machine), (''d_max'', PyInt 2)] =
     Inr (MetropolisHop, [Graph, Machine, PyInt 2])"
    by (simp add: call_defs)
  show "py_call AddSamplerModule ''MetropolisHamiltonian'' []
     [(''machine'', Machine), (''hamiltonian'', Operator)] =
     Inr (MetropolisHamiltonian, [Machine, Operator])"
    by (simp add: call_defs)
  {
    fix pos kw c vs
    assume "py_call AddSamplerModule ''MetropolisHop'' pos kw = Inr (c, vs)"
    from py_call_InrD[OF this hop] have t: "try_init ?hop pos kw = Some vs" .
    from try_init_required[OF t, of 0] show "0 < length pos \<or> ''graph'' \<in> fst ` set kw"
      by (simp add: arg_def)
    from try_init_required[OF t, of 1] show "1 < length pos \<or> ''machine'' \<in> fst ` set kw"
      by (simp add: arg_def)
    from try_init_required[OF t, of 2] show "2 < length pos \<or> ''d_max'' \<in> fst ` set kw"
      by (simp add: arg_def)
    from try_init_keywords_all[OF t]
    show "fst ` set kw \<subseteq> {''graph'', ''machine'', ''d_max''}"
      by (simp add: arg_def)
    from try_init_Some(1)[OF t] show "length vs = 3" by simp
  }
  {
    fix pos kw c vs
    assume "py_call AddSamplerModule ''MetropolisHamiltonian'' pos kw = Inr (c, vs)"
    from py_call_InrD[OF this ham] have t: "try_init ?ham pos kw = Some vs" .
    from try_init_required[OF t, of 0] show "0 < length pos \<or> ''machine'' \<in> fst ` set kw"
      by (simp add: arg_def)
    from try_init_required[OF t, of 1]
    show "1 < length pos \<or> ''hamiltonian'' \<in> fst ` set kw"
      by (simp add: arg_def)
    from try_init_keywords_all[OF t]
    show "fst ` set kw \<subseteq> {''machine'', ''hamiltonian''}"
      by (simp add: arg_def)
    from try_init_Some(1)[OF t] show "length vs = 2" by simp
  }
qed

theorem hop_and_hamiltonian_arguments_witness:
  "py_call AddSamplerModule ''MetropolisHop'' [Graph] [(''d_max'', PyInt 2), (''machine'', Machine)] =
     Inr (MetropolisHop, [Graph, Machine, PyInt 2]) \<and>
   fst ` set [(''d_max'', PyInt 2), (''machine'', Machine)] \<subseteq> {''graph'', ''machine'', ''d_max''} \<and>
   length [Graph, Machine, PyInt 2] = 3 \<and>
   py_call AddSamplerModule ''MetropolisHamiltonian'' [Machine] [(''hamiltonian'', Operator)] =
     Inr (MetropolisHamiltonian, [Machine, Operator]) \<and>
   (1 < length [Machine] \<or> ''hamiltonian'' \<in> fst ` set [(''hamiltonian'', Operator)]) \<and>
   length [Machine, Operator] = 2"
proof -
  have hop: "py_call AddSamplerModule ''MetropolisHop'' [Graph]
      [(''d_max'', PyInt 2), (''machine'', Machine)] =
     Inr (MetropolisHop, [Graph, Machine, PyInt 2])"
    by (simp add: call_defs)
  have ham: "py_call AddSamplerModule ''MetropolisHamiltonian'' [Machine]
      [(''hamiltonian'', Operator)] = Inr (MetropolisHamiltonian, [Machine, Operator])"
    by (simp add: call_defs)
  note hop_rule = hop_and_hamiltonian_arguments
    [THEN conjunct2, THEN conjunct2, THEN conjunct1, rule_format]
  note ham_rule = hop_and_hamiltonian_arguments
    [THEN conjunct2, THEN conjunct2, THEN conjunct2, THEN conjunct1, rule_format]
  from hop_rule[OF hop] ham_rule[OF ham] hop ham show ?thesis by simp
qed

text \<open>
  Claim C2 as stated fails: the spec's options table calls the second argument of the
  Hamiltonian sampler \<open>hamiltonian_operator\<close>, and a call that passes the operator under
  that keyword raises \<open>TypeError\<close>. The registered names are \<open>machine\<close> and
  \<open>hamiltonian\<close>.
\<close>

theorem hamiltonian_operator_keyword_counterexample:
  "py_call AddSamplerModule ''MetropolisHamiltonian'' []
     [(''machine'', Machine), (''hamiltonian_operator'', Operator)] = Inl TypeError \<and>
   map (map arg_name \<circ> snd) (constructors AddSamplerModule ''MetropolisHamiltonian'') =
     [[''machine'', ''hamiltonian'']]"
  by (simp add: call_defs constructors_def)

text \<open>
  Claim C5. The spec names the replica count of the CustomPt sampler \<open>n_replicas\<close>, as
  the three other tempering samplers register it. \<open>CustomSamplerPt\<close> registers it as
  \<open>nreplicas\<close>: a call that gives every required argument by the names of the claim
  raises \<open>TypeError\<close>, the same call with \<open>nreplicas\<close> is accepted, and
  \<open>MetropolisLocalPt\<close> accepts \<open>n_replicas\<close>.
\<close>

theorem CustomSamplerPt_rejects_n_replicas:
  "py_call AddSamplerModule ''CustomSamplerPt'' []
     [(''machine'', Machine), (''move_operators'', MatList [[[0, 1], [1, 0]]]),
      (''acting_on'', IntListList [[0]]), (''n_replicas'', PyInt 2)] = Inl TypeError \<and>
   py_call AddSamplerModule ''CustomSamplerPt'' []
     [(''machine'', Machine), (''move_operators'', MatList [[[0, 1], [1, 0]]]),
      (''acting_on'', IntListList [[0]]), (''nreplicas'', PyInt 2)] =
     Inr (CustomSamplerPt,
          [Machine, MatList [[[0, 1], [1, 0]]], IntListList [[0]], FloatList [], PyInt 2]) \<and>
   py_call AddSamplerModule ''MetropolisLocalPt'' []
     [(''machine'', Machine), (''n_replicas'', PyInt 2)] =
     Inr (MetropolisLocalPt, [Machine, PyInt 2])"
  by (simp add: call_defs)

text \<open>
  Claim C10. \<open>CustomSamplerPt\<close> registers its replica count last, under the name
  \<open>nreplicas\<close> and without a default, after \<open>move_weights\<close>, which has one; the other
  three tempering samplers register theirs as \<open>n_replicas\<close>. A call of
  \<open>CustomSamplerPt\<close> that is accepted either gives \<open>nreplicas\<close> by keyword, or gives five
  positional arguments of which the fourth is the weight list; it never uses the
  keyword \<open>n_replicas\<close>. Both kinds of call exist, and a call that puts the replica count
  in the fourth position raises \<open>TypeError\<close>.
\<close>

theorem CustomSamplerPt_nreplicas:
  "constructors AddSamplerModule ''CustomSamplerPt'' =
     [([AbMachineType_ref, const_vector_MatType_ref, const_vector_vector_int_ref,
        vector_double, int_t],
       [arg ''machine'', arg ''move_operators'', arg ''acting_on'',
        arg_eq ''move_weights'' (FloatList []), arg ''nreplicas''])] \<and>
   map (\<lambda>n. map (map arg_name \<circ> snd) (constructors AddSamplerModule n))
     [''MetropolisLocalPt'', ''MetropolisHamiltonianPt'', ''MetropolisExchangePt''] =
     [[[''machine'', ''n_replicas'']],
      [[''machine'', ''hamiltonian'', ''n_replicas'']],
      [[''graph'', ''machine'', ''d_max'', ''n_replicas'']]] \<and>
   (\<forall>pos kw c vs. py_call AddSamplerModule ''CustomSamplerPt'' pos kw = Inr (c, vs) \<longrightarrow>
      (length pos < 5 \<and> ''nreplicas'' \<in> fst ` set kw \<or>
       length pos = 5 \<and> (\<exists>ws. pos ! 3 = FloatList ws)) \<and>
      ''n_replicas'' \<notin> fst ` set kw) \<and>
   py_call AddSamplerModule ''CustomSamplerPt''
     [Machine, MatList [[[0, 1], [1, 0]]], IntListList [[0]]] [(''nreplicas'', PyInt 2)] =
     Inr (CustomSamplerPt,
          [Machine, MatList [[[0, 1], [1, 0]]], IntListList [[0]], FloatList [], PyInt 2]) \<and>
   py_call AddSamplerModule ''CustomSamplerPt''
     [Machine, MatList [[[0, 1], [1, 0]]], IntListList [[0]], FloatList [1], PyInt 2] [] =
     Inr (CustomSamplerPt,
          [Machine, MatList [[[0, 1], [1, 0]]], IntListList [[0]], FloatList [1], PyInt 2]) \<and>
   py_call AddSamplerModule ''CustomSamplerPt''
     [Machine, MatList [[[0, 1], [1, 0]]], IntListList [[0]], PyInt 2] [] = Inl TypeError"
proof (intro conjI allI impI)
  let ?tys = "[AbMachineType_ref, const_vector_MatType_ref, const_vector_vector_int_ref,
               vector_double, int_t]"
  let ?as = "[arg ''machine'', arg ''move_operators'', arg ''acting_on'',
              arg_eq ''move_weights'' (FloatList []), arg ''nreplicas'']"
  show ctor: "constructors AddSamplerModule ''CustomSamplerPt'' = [(?tys, ?as)]"
    by (simp add: registration_defs)
  show "map (\<lambda>n. map (map arg_name \<circ> snd) (constructors AddSamplerModule n))
     [''MetropolisLocalPt'', ''MetropolisHamiltonianPt'', ''MetropolisExchangePt''] =
     [[[''machine'', ''n_replicas'']],
      [[''machine'', ''hamiltonian'', ''n_replicas'']],
      [[''graph'', ''machine'', ''d_max'', ''n_replicas'']]]"
    by (simp add: registration_defs)
  show "py_call AddSamplerModule ''CustomSamplerPt''
     [Machine, MatList [[[0, 1], [1, 0]]], IntListList [[0]]] [(''nreplicas'', PyInt 2)] =
     Inr (CustomSamplerPt,
          [Machine, MatList [[[0, 1], [1, 0]]], IntListList [[0]], FloatList [], PyInt 2])"
    by (simp add: call_defs)
  show "py_call AddSamplerModule ''CustomSamplerPt''
     [Machine, MatList [[[0, 1], [1, 0]]], IntListList [[0]], FloatList [1], PyInt 2] [] =
     Inr (CustomSamplerPt,
          [Machine, MatList [[[0, 1], [1, 0]]], IntListList [[0]], FloatList [1], PyInt 2])"
    by (simp add: call_defs)
  show "py_call AddSamplerModule ''CustomSamplerPt''
     [Machine, MatList [[[0, 1], [1, 0]]], IntListList [[0]], PyInt 2] [] = Inl TypeError"
    by (simp add: call_defs)
  fix pos kw c vs
  assume "py_call AddSamplerModule ''CustomSamplerPt'' pos kw = Inr (c, vs)"
  from py_call_InrD[OF this ctor] have t: "try_init (?tys, ?as) pos kw = Some vs" .
  from try_init_keywords_all[OF t] show "''n_replicas'' \<notin> fst ` set kw"
    by (auto simp: arg_def arg_eq_def)
  from try_init_Some(2)[OF t] have len: "length pos \<le> 5" by simp
  show "length pos < 5 \<and> ''nreplicas'' \<in> fst ` set kw \<or>
        length pos = 5 \<and> (\<exists>ws. pos ! 3 = FloatList ws)"
  proof (cases "length pos = 5")
    case True
    with try_init_all_positional[OF t] have "vs = pos" by simp
    with try_init_Some(4)[OF t] have "list_all2 loads ?tys pos" by simp
    from list_all2_nthD[OF this, of 3] have "loads vector_double (pos ! 3)" by simp
    then have "\<exists>ws. pos ! 3 = FloatList ws" by (cases "pos ! 3") simp_all
    with True show ?thesis by simp
  next
    case False
    with len have lt: "length pos < 5" by simp
    with try_init_required[OF t, of 4] have "''nreplicas'' \<in> fst ` set kw"
      by (simp add: arg_def)
    with lt show ?thesis by simp
  qed
qed

theorem CustomSamplerPt_nreplicas_witness:
  "py_call AddSamplerModule ''CustomSamplerPt''
     [Machine, MatList [], IntListList []] [(''nreplicas'', PyInt 4)] =
     Inr (CustomSamplerPt, [Machine, MatList [], IntListList [], FloatList [], PyInt 4]) \<and>
   (length [Machine, MatList [], IntListList []] < 5 \<and>
      ''nreplicas'' \<in> fst ` set [(''nreplicas'', PyInt 4)] \<or>
    length [Machine, MatList [], IntListList []] = 5 \<and>
      (\<exists>ws. [Machine, MatList [], IntListList []] ! 3 = FloatList ws)) \<and>
   ''n_replicas'' \<notin> fst ` set [(''nreplicas'', PyInt 4)]"
proof -
  have call: "py_call AddSamplerModule ''CustomSamplerPt''
     [Machine, MatList [], IntListList []] [(''nreplicas'', PyInt 4)] =
     Inr (CustomSamplerPt, [Machine, MatList [], IntListList [], FloatList [], PyInt 4])"
    by (simp add: call_defs)
  note rule = CustomSamplerPt_nreplicas
    [THEN conjunct2, THEN conjunct2, THEN conjunct1, rule_format]
  from rule[OF call] call show ?thesis by (intro conjI) (rule call, simp_all)
qed

section \<open>Construction\<close>

text \<open>
  Claim C6. The constructor of \<open>CustomSampler\<close> registers \<open>move_weights\<close> with the empty
  list as default, so a call may leave it out and the C++ constructor then runs on an
  empty weight list; with as many \<open>acting_on\<close> entries as operators such a call passes
  the argument checks. With the empty list the operators get the weight 1 each: each of
  \<open>n\<close> operators is selected with probability \<open>1 / n\<close>, the same as with any explicit
  list of \<open>n\<close> equal weights.
\<close>

theorem custom_move_weights_default:
  "constructors AddSamplerModule ''CustomSampler'' =
     [([AbMachineType_ref, const_vector_MatType_ref, const_vector_vector_int_ref,
        vector_double],
       [arg ''machine'', arg ''move_operators'', arg ''acting_on'',
        arg_eq ''move_weights'' (FloatList [])])] \<and>
   (\<forall>pos kw c vs. py_call AddSamplerModule ''CustomSampler'' pos kw = Inr (c, vs) \<and>
        length pos \<le> 3 \<and> ''move_weights'' \<notin> fst ` set kw \<longrightarrow> vs ! 3 = FloatList []) \<and>
   (\<forall>ops acting. list_all (list_all fits_int) acting \<and> length ops = length acting \<longrightarrow>
      py_new AddSamplerModule ''CustomSampler'' [Machine, MatList ops, IntListList acting] [] =
        Inr (CustomSampler, [Machine, MatList ops, IntListList acting, FloatList []])) \<and>
   (\<forall>n. operator_weights n [] = replicate n 1) \<and>
   (\<forall>n k. k < n \<longrightarrow> selection_probability (operator_weights n []) k = 1 / real n) \<and>
   (\<forall>n k w. selection_probability (operator_weights n []) k =
      selection_probability (operator_weights n (replicate n w)) k)"
proof (intro conjI allI impI)
  let ?tys = "[AbMachineType_ref, const_vector_MatType_ref, const_vector_vector_int_ref,
               vector_double]"
  let ?as = "[arg ''machine'', arg ''move_operators'', arg ''acting_on'',
              arg_eq ''move_weights'' (FloatList [])]"
  show ctor: "constructors AddSamplerModule ''CustomSampler'' = [(?tys, ?as)]"
    by (simp add: registration_defs)
  {
    fix pos kw c vs
    assume a: "py_call AddSamplerModule ''CustomSampler'' pos kw = Inr (c, vs) \<and>
        length pos \<le> 3 \<and> ''move_weights'' \<notin> fst ` set kw"
    then have "py_call AddSamplerModule ''CustomSampler'' pos kw = Inr (c, vs)" by simp
    from py_call_InrD[OF this ctor] have t: "try_init (?tys, ?as) pos kw = Some vs" .
    from a try_init_default[OF t, of 3] show "vs ! 3 = FloatList []"
      by (simp add: arg_eq_def)
  }
  {
    fix ops :: "MatType list" and acting :: "int list list"
    assume a: "list_all (list_all fits_int) acting \<and> length ops = length acting"
    then have "py_call AddSamplerModule ''CustomSampler''
        [Machine, MatList ops, IntListList acting] [] =
        Inr (CustomSampler, [Machine, MatList ops, IntListList acting, FloatList []])"
      by (simp add: call_defs)
    with a show "py_new AddSamplerModule ''CustomSampler''
        [Machine, MatList ops, IntListList acting] [] =
        Inr (CustomSampler, [Machine, MatList ops, IntListList acting, FloatList []])"
      by (simp add: py_new_def mismatched_def lengths_agree_def)
  }
  {
    fix n
    show "operator_weights n [] = replicate n 1" by (rule operator_weights_Nil)
  }
  {
    fix n k :: nat
    assume "k < n"
    then show "selection_probability (operator_weights n []) k = 1 / real n"
      by (simp add: operator_weights_Nil selection_probability_uniform)
  }
  {
    fix n k :: nat and w :: real
    show "selection_probability (operator_weights n []) k =
      selection_probability (operator_weights n (replicate n w)) k"
      by (simp add: operator_weights_replicate operator_weights_Nil
            selection_probability_uniform)
  }
qed

theorem custom_move_weights_default_witness:
  "py_call AddSamplerModule ''CustomSampler''
     [Machine, MatList [[[0, 1], [1, 0]], [[1, 0], [0, 1]]]] [(''acting_on'', IntListList [[0], [1]])] =
     Inr (CustomSampler, [Machine, MatList [[[0, 1], [1, 0]], [[1, 0], [0, 1]]],
                          IntListList [[0], [1]], FloatList []]) \<and>
   [Machine, MatList [[[0, 1], [1, 0]], [[1, 0], [0, 1]]],
    IntListList [[0], [1]], FloatList []] ! 3 = FloatList [] \<and>
   py_new AddSamplerModule ''CustomSampler''
     [Machine, MatList [[[0, 1], [1, 0]], [[1, 0], [0, 1]]], IntListList [[0], [1]]] [] =
     Inr (CustomSampler, [Machine, MatList [[[0, 1], [1, 0]], [[1, 0], [0, 1]]],
                          IntListList [[0], [1]], FloatList []]) \<and>
   selection_probability (operator_weights 2 []) 1 = 1 / 2"
proof -
  let ?ops = "[[[0, 1], [1, 0]], [[1, 0], [0, 1]]] :: MatType list"
  have call: "py_call AddSamplerModule ''CustomSampler''
     [Machine, MatList ?ops] [(''acting_on'', IntListList [[0], [1]])] =
     Inr (CustomSampler, [Machine, MatList ?ops, IntListList [[0], [1]], FloatList []])"
    by (simp add: call_defs)
  have omitted: "length [Machine, MatList ?ops] \<le> 3 \<and>
     ''move_weights'' \<notin> fst ` set [(''acting_on'', IntListList [[0], [1]])]"
    by simp
  have ok: "list_all (list_all fits_int) [[0], [1]] \<and> length ?ops = length [[0 :: int], [1]]"
    by (simp add: fits_int_def)
  have lt: "(1 :: nat) < 2" by simp
  note r1 = custom_move_weights_default[THEN conjunct2, THEN conjunct1, rule_format]
  note r2 = custom_move_weights_default
    [THEN conjunct2, THEN conjunct2, THEN conjunct1, rule_format]
  note r3 = custom_move_weights_default
    [THEN conjunct2, THEN conjunct2, THEN conjunct2, THEN conjunct2, THEN conjunct1, rule_format]
  from r1[OF conjI[OF call omitted]] r2[OF ok] r3[OF lt] call show ?thesis by simp
qed

text \<open>
  Claim C7. For each of the four tempering samplers, a call that the binding accepts and
  that puts 0 in the replica-count parameter ends in \<open>ConstructionError\<close>; so does a call
  of \<open>CustomSampler\<close> whose \<open>move_operators\<close> and \<open>acting_on\<close> differ in length. In
  both cases the result is the error, not a sampler.
\<close>

theorem zero_replicas_or_mismatch_fails:
  "(\<forall>pos kw c vs. py_call AddSamplerModule ''MetropolisLocalPt'' pos kw = Inr (c, vs) \<and>
        vs ! 1 = PyInt 0 \<longrightarrow>
      py_new AddSamplerModule ''MetropolisLocalPt'' pos kw = Inl ConstructionError) \<and>
   (\<forall>pos kw c vs. py_call AddSamplerModule ''MetropolisHamiltonianPt'' pos kw = Inr (c, vs) \<and>
        vs ! 2 = PyInt 0 \<longrightarrow>
      py_new AddSamplerModule ''MetropolisHamiltonianPt'' pos kw = Inl ConstructionError) \<and>
   (\<forall>pos kw c vs. py_call AddSamplerModule ''MetropolisExchangePt'' pos kw = Inr (c, vs) \<and>
        vs ! 3 = PyInt 0 \<longrightarrow>
      py_new AddSamplerModule ''MetropolisExchangePt'' pos kw = Inl ConstructionError) \<and>
   (\<forall>pos kw c vs. py_call AddSamplerModule ''CustomSamplerPt'' pos kw = Inr (c, vs) \<and>
        vs ! 4 = PyInt 0 \<longrightarrow>
      py_new AddSamplerModule ''CustomSamplerPt'' pos kw = Inl ConstructionError) \<and>
   (\<forall>pos kw c m ops acting ws.
      py_call AddSamplerModule ''CustomSampler'' pos kw =
        Inr (c, [m, MatList ops, IntListList acting, FloatList ws]) \<and>
      length ops \<noteq> length acting \<longrightarrow>
      py_new AddSamplerModule ''CustomSampler'' pos kw = Inl ConstructionError)"
proof (intro conjI allI impI)
  fix pos kw c vs
  assume a: "py_call AddSamplerModule ''MetropolisLocalPt'' pos kw = Inr (c, vs) \<and>
    vs ! 1 = PyInt 0"
  then have call: "py_call AddSamplerModule ''MetropolisLocalPt'' pos kw = Inr (c, vs)" ..
  from py_call_class[OF call] have c: "c = MetropolisLocalPt"
    by (simp add: class_of_variant)
  from try_init_Some(1)[OF py_call_InrD[OF call constructors_of_variant(1)]]
  have "length vs = 2" by simp
  then obtain x y where "vs = [x, y]" using length_2E by blast
  with a c have "construction_error c vs" by simp
  with call show "py_new AddSamplerModule ''MetropolisLocalPt'' pos kw = Inl ConstructionError"
    by (rule py_new_fails)
next
  fix pos kw c vs
  assume a: "py_call AddSamplerModule ''MetropolisHamiltonianPt'' pos kw = Inr (c, vs) \<and>
    vs ! 2 = PyInt 0"
  then have call: "py_call AddSamplerModule ''MetropolisHamiltonianPt'' pos kw = Inr (c, vs)" ..
  from py_call_class[OF call] have c: "c = MetropolisHamiltonianPt"
    by (simp add: class_of_variant)
  from try_init_Some(1)[OF py_call_InrD[OF call constructors_of_variant(2)]]
  have "length vs = 3" by simp
  then obtain x y z where "vs = [x, y, z]" using length_3E by blast
  with a c have "construction_error c vs" by simp
  with call
  show "py_new AddSamplerModule ''MetropolisHamiltonianPt'' pos kw = Inl ConstructionError"
    by (rule py_new_fails)
next
  fix pos kw c vs
  assume a: "py_call AddSamplerModule ''MetropolisExchangePt'' pos kw = Inr (c, vs) \<and>
    vs ! 3 = PyInt 0"
  then have call: "py_call AddSamplerModule ''MetropolisExchangePt'' pos kw = Inr (c, vs)" ..
  from py_call_class[OF call] have c: "c = MetropolisExchangePt"
    by (simp add: class_of_variant)
  from try_init_Some(1)[OF py_call_InrD[OF call constructors_of_variant(3)]]
  have "length vs = 4" by simp
  then obtain x y z u where "vs = [x, y, z, u]" using length_4E by blast
  with a c have "construction_error c vs" by simp
  with call
  show "py_new AddSamplerModule ''MetropolisExchangePt'' pos kw = Inl ConstructionError"
    by (rule py_new_fails)
next
  fix pos kw c vs
  assume a: "py_call AddSamplerModule ''CustomSamplerPt'' pos kw = Inr (c, vs) \<and>
    vs ! 4 = PyInt 0"
  then have call: "py_call AddSamplerModule ''CustomSamplerPt'' pos kw = Inr (c, vs)" ..
  from py_call_class[OF call] have c: "c = CustomSamplerPt"
    by (simp add: class_of_variant)
  from try_init_Some(1)[OF py_call_InrD[OF call constructors_of_variant(4)]]
  have "length vs = 5" by simp
  then obtain x y z u v where "vs = [x, y, z, u, v]" using length_5E by blast
  with a c have "construction_error c vs" by simp
  with call
  show "py_new AddSamplerModule ''CustomSamplerPt'' pos kw = Inl ConstructionError"
    by (rule py_new_fails)
next
  fix pos kw c m and ops :: "MatType list" and acting :: "int list list" and ws :: "real list"
  assume a: "py_call AddSamplerModule ''CustomSampler'' pos kw =
        Inr (c, [m, MatList ops, IntListList acting, FloatList ws]) \<and>
      length ops \<noteq> length acting"
  then have call: "py_call AddSamplerModule ''CustomSampler'' pos kw =
        Inr (c, [m, MatList ops, IntListList acting, FloatList ws])" ..
  from py_call_class[OF call] have c: "c = CustomSampler"
    by (simp add: class_of_variant)
  with a have "construction_error c [m, MatList ops, IntListList acting, FloatList ws]"
    by (simp add: mismatched_def lengths_agree_def)
  with call
  show "py_new AddSamplerModule ''CustomSampler'' pos kw = Inl ConstructionError"
    by (rule py_new_fails)
qed

theorem zero_replicas_or_mismatch_fails_witness:
  "py_new AddSamplerModule ''MetropolisLocalPt'' [Machine, PyInt 0] [] =
     Inl ConstructionError \<and>
   py_new AddSamplerModule ''MetropolisHamiltonianPt'' [Machine, Operator]
     [(''n_replicas'', PyInt 0)] = Inl ConstructionError \<and>
   py_new AddSamplerModule ''MetropolisExchangePt'' [Graph, Machine]
     [(''n_replicas'', PyInt 0)] = Inl ConstructionError \<and>
   py_new AddSamplerModule ''CustomSamplerPt''
     [Machine, MatList [[[0, 1], [1, 0]]], IntListList [[0]]] [(''nreplicas'', PyInt 0)] =
     Inl ConstructionError \<and>
   py_new AddSamplerModule ''CustomSampler''
     [Machine, MatList [[[0, 1], [1, 0]]], IntListList [[0], [1]]] [] =
     Inl ConstructionError"
proof -
  let ?ops = "[[[0, 1], [1, 0]]] :: MatType list"
  have c1: "py_call AddSamplerModule ''MetropolisLocalPt'' [Machine, PyInt 0] [] =
      Inr (MetropolisLocalPt, [Machine, PyInt 0]) \<and> [Machine, PyInt 0] ! 1 = PyInt 0"
    by (simp add: call_defs)
  have c2: "py_call AddSamplerModule ''MetropolisHamiltonianPt'' [Machine, Operator]
      [(''n_replicas'', PyInt 0)] = Inr (MetropolisHamiltonianPt, [Machine, Operator, PyInt 0]) \<and>
      [Machine, Operator, PyInt 0] ! 2 = PyInt 0"
    by (simp add: call_defs)
  have c3: "py_call AddSamplerModule ''MetropolisExchangePt'' [Graph, Machine]
      [(''n_replicas'', PyInt 0)] =
      Inr (MetropolisExchangePt, [Graph, Machine, PyInt 1, PyInt 0]) \<and>
      [Graph, Machine, PyInt 1, PyInt 0] ! 3 = PyInt 0"
    by (simp add: call_defs)
  have c4: "py_call AddSamplerModule ''CustomSamplerPt''
      [Machine, MatList ?ops, IntListList [[0]]] [(''nreplicas'', PyInt 0)] =
      Inr (CustomSamplerPt, [Machine, MatList ?ops, IntListList [[0]], FloatList [], PyInt 0]) \<and>
      [Machine, MatList ?ops, IntListList [[0]], FloatList [], PyInt 0] ! 4 = PyInt 0"
    by (simp add: call_defs)
  have c5: "py_call AddSamplerModule ''CustomSampler''
      [Machine, MatList ?ops, IntListList [[0], [1]]] [] =
      Inr (CustomSampler, [Machine, MatList ?ops, IntListList [[0], [1]], FloatList []]) \<and>
      length ?ops \<noteq> length [[0 :: int], [1]]"
    by (simp add: call_defs)
  note r1 = zero_replicas_or_mismatch_fails[THEN conjunct1, rule_format]
  note r2 = zero_replicas_or_mismatch_fails[THEN conjunct2, THEN conjunct1, rule_format]
  note r3 = zero_replicas_or_mismatch_fails
    [THEN conjunct2, THEN conjunct2, THEN conjunct1, rule_format]
  note r4 = zero_replicas_or_mismatch_fails
    [THEN conjunct2, THEN conjunct2, THEN conjunct2, THEN conjunct1, rule_format]
  note r5 = zero_replicas_or_mismatch_fails
    [THEN conjunct2, THEN conjunct2, THEN conjunct2, THEN conjunct2, rule_format]
  from r1[OF c1] r2[OF c2] r3[OF c3] r4[OF c4] r5[OF c5] show ?thesis by (intro conjI)
qed

end
